theory Spec2Isabelle
  imports Main "HOL-Library.AList"
begin

section \<open>Credential issuance and rotation (auth/jwt.ts)\<close>

text \<open>
  The module keeps one piece of state, the map \<open>refreshStore\<close> from a refresh token's
  \<open>jti\<close> to its \<open>RefreshRecord\<close>. Everything else it reads from outside: the
  configuration (\<open>getEnv()\<close>), the clock (\<open>Date.now()\<close>, in milliseconds) and the
  random source (\<open>generateId()\<close>). In the model the store is passed in and returned, and
  the clock reading and the generated ids of one call are arguments of that call.
\<close>

subsection \<open>Data\<close>

datatype token_type = access | refresh

record JwtPayload =
  sub :: string
  iss :: string
  aud :: string
  jti :: string
  type :: token_type

record RefreshRecord =
  jti :: string
  sub :: string
  family :: string
  valid :: bool
  expiresAt :: int

text \<open>
  The fields of \<open>AppEnv\<close> that auth/jwt.ts reads. The two TTL fields hold the number of
  seconds that the signing library derives from the configured timespan string
  (900 for \<open>'15m'\<close>, 604800 for \<open>'7d'\<close>); a string it cannot read is a configuration
  error and has no value here.
\<close>

record AppEnv =
  JWT_ACCESS_SECRET :: string
  JWT_REFRESH_SECRET :: string
  JWT_ISSUER :: string
  JWT_AUDIENCE :: string
  ACCESS_TOKEN_TTL :: int
  REFRESH_TOKEN_TTL :: int

subsection \<open>The signing library\<close>

text \<open>
  A token string is either the compact serialisation of an HS256-signed claim set, given
  by the payload, the \<open>exp\<close> claim (seconds since the epoch, absent when the signer set
  none) and the key whose HMAC it carries, or any other text. The HMAC is idealised: a
  signature made with one key verifies under that key and under no other.
\<close>

datatype token = NotJwt string | Jwt JwtPayload "int option" string

datatype jwt_error = JsonWebTokenError | TokenExpiredError

text \<open>\<open>jwt.sign(payload, secret, {expiresIn, algorithm: 'HS256'})\<close> at clock reading \<open>now\<close>.\<close>

definition jwt_sign :: "JwtPayload \<Rightarrow> string \<Rightarrow> int \<Rightarrow> int \<Rightarrow> token" where
  "jwt_sign payload secret expiresIn now = Jwt payload (Some (now div 1000 + expiresIn)) secret"

text \<open>
  \<open>jwt.verify(token, secret, {algorithms: ['HS256'], issuer, audience})\<close>: the signature,
  then the expiry (a token is expired once the clock, in seconds, has reached \<open>exp\<close>),
  then the audience and the issuer when the option is a non-empty string.
\<close>

definition jwt_verify :: "token \<Rightarrow> string \<Rightarrow> string \<Rightarrow> string \<Rightarrow> int \<Rightarrow> jwt_error + JwtPayload" where
  "jwt_verify t secret issuer audience now =
     (case t of
        NotJwt _ \<Rightarrow> Inl JsonWebTokenError
      | Jwt payload exp k \<Rightarrow>
          if k \<noteq> secret then Inl JsonWebTokenError
          else if (case exp of None \<Rightarrow> False | Some e \<Rightarrow> e \<le> now div 1000) then Inl TokenExpiredError
          else if audience \<noteq> [] \<and> JwtPayload.aud payload \<noteq> audience then Inl JsonWebTokenError
          else if issuer \<noteq> [] \<and> JwtPayload.iss payload \<noteq> issuer then Inl JsonWebTokenError
          else Inr payload)"

text \<open>\<open>jwt.decode(token)?.exp\<close>: the \<open>exp\<close> claim read without any verification.\<close>

definition jwt_decode_exp :: "token \<Rightarrow> int option" where
  "jwt_decode_exp t = (case t of NotJwt _ \<Rightarrow> None | Jwt _ exp _ \<Rightarrow> exp)"

text \<open>\<open>jwt.decode(token)\<close>: the payload read without any verification.\<close>

definition jwt_decode :: "token \<Rightarrow> JwtPayload option" where
  "jwt_decode t = (case t of NotJwt _ \<Rightarrow> None | Jwt payload _ _ \<Rightarrow> Some payload)"

subsection \<open>The refresh store\<close>

text \<open>
  A JavaScript \<open>Map\<close> keeps its entries in insertion order with one entry per key;
  \<open>set\<close> replaces the value of a present key in place and appends an absent one, which
  is \<open>AList.update\<close>, and \<open>get\<close> is \<open>map_of\<close>.
\<close>

type_synonym store = "(string \<times> RefreshRecord) list"

text \<open>
  What every store built by this module satisfies: one entry per key (it is a \<open>Map\<close>),
  and each record filed under its own \<open>jti\<close>.
\<close>

definition wf_store :: "store \<Rightarrow> bool" where
  "wf_store st \<longleftrightarrow> distinct (map fst st) \<and> list_all (\<lambda>(k, r). RefreshRecord.jti r = k) st"

subsection \<open>issueTokens\<close>

text \<open>
  JavaScript numbers are IEEE doubles. The integer arithmetic below agrees with the
  source's while every value is a safe integer (magnitude at most \<open>2^53 - 1\<close>); beyond
  that the source stores a rounded \<open>expiresAt\<close>, and a statement that gives the value
  of \<open>expiresAt\<close> has to stay within the range.
\<close>

text \<open>The results of the three \<open>generateId()\<close> calls, in order: accessId, refreshId, family.\<close>

type_synonym generated = "string \<times> string \<times> string"

record token_pair =
  accessToken :: token
  refreshToken :: token

definition issueTokens :: "AppEnv \<Rightarrow> int \<Rightarrow> generated \<Rightarrow> string \<Rightarrow> store \<Rightarrow> token_pair \<times> store" where
  "issueTokens env now g subject st =
     (case g of (accessId, refreshId, fam) \<Rightarrow>
        let accessPayload = \<lparr>JwtPayload.sub = subject, iss = JWT_ISSUER env, aud = JWT_AUDIENCE env,
                             jti = accessId, type = access\<rparr>;
            accessTok = jwt_sign accessPayload (JWT_ACCESS_SECRET env) (ACCESS_TOKEN_TTL env) now;
            refreshPayload = \<lparr>JwtPayload.sub = subject, iss = JWT_ISSUER env, aud = JWT_AUDIENCE env,
                              jti = refreshId, type = refresh\<rparr>;
            refreshTok = jwt_sign refreshPayload (JWT_REFRESH_SECRET env) (REFRESH_TOKEN_TTL env) now;
            exp = (case jwt_decode_exp refreshTok of
                     Some e \<Rightarrow> if e \<noteq> 0 then e * 1000 else now + 7 * 24 * 3600 * 1000
                   | None \<Rightarrow> now + 7 * 24 * 3600 * 1000)
        in (\<lparr>accessToken = accessTok, refreshToken = refreshTok\<rparr>,
            AList.update refreshId
              \<lparr>RefreshRecord.jti = refreshId, sub = subject, family = fam, valid = True, expiresAt = exp\<rparr> st))"

subsection \<open>rotateRefreshToken\<close>

datatype error = invalid_refresh | refresh_reused_or_revoked

text \<open>
  The record fetched from the map is the stored object itself, so \<open>record.valid = false\<close>
  already changes the entry under \<open>payload.jti\<close>; the \<open>set\<close> that follows files the same
  object under \<open>record.jti\<close>. A thrown error leaves the store as it was at the throw.
\<close>

definition rotateRefreshToken :: "AppEnv \<Rightarrow> int \<Rightarrow> generated \<Rightarrow> token \<Rightarrow> store \<Rightarrow> (error + token_pair) \<times> store" where
  "rotateRefreshToken env now g oldToken st =
     (case jwt_verify oldToken (JWT_REFRESH_SECRET env) (JWT_ISSUER env) (JWT_AUDIENCE env) now of
        Inl _ \<Rightarrow> (Inl invalid_refresh, st)
      | Inr payload \<Rightarrow>
          if type payload \<noteq> refresh then (Inl invalid_refresh, st)
          else (case map_of st (JwtPayload.jti payload) of
                  None \<Rightarrow> (Inl refresh_reused_or_revoked, st)
                | Some record \<Rightarrow>
                    if \<not> valid record then (Inl refresh_reused_or_revoked, st)
                    else
                      let record' = record\<lparr>valid := False\<rparr>;
                          st1 = AList.update (JwtPayload.jti payload) record' st;
                          st2 = AList.update (RefreshRecord.jti record') record' st1;
                          (pair, st3) = issueTokens env now g (JwtPayload.sub payload) st2
                      in (Inr pair, st3)))"

subsection \<open>authenticateJwt\<close>

text \<open>
  The \<open>Authorization\<close> header: absent, present without the prefix \<open>'Bearer '\<close>, or the
  prefix followed by a token string (\<open>NotJwt []\<close> when nothing follows it).
\<close>

datatype authorization = NoHeader | OtherScheme string | Bearer token

text \<open>The middleware either answers with a status and an error name, or calls \<open>next()\<close>
  with the decoded payload attached to the request.\<close>

datatype outcome = Respond nat string | Next JwtPayload

definition authenticateJwt :: "AppEnv \<Rightarrow> int \<Rightarrow> authorization \<Rightarrow> outcome" where
  "authenticateJwt env now auth =
     (let token = (case auth of Bearer t \<Rightarrow> t | _ \<Rightarrow> NotJwt [])
      in if token = NotJwt [] then Respond 401 ''missing_token''
         else (case jwt_verify token (JWT_ACCESS_SECRET env) (JWT_ISSUER env) (JWT_AUDIENCE env) now of
                 Inl _ \<Rightarrow> Respond 401 ''invalid_token''
               | Inr decoded \<Rightarrow>
                   if type decoded \<noteq> access then Respond 401 ''invalid_token_type''
                   else Next decoded))"

subsection \<open>revokeFamily\<close>

text \<open>
  The loop visits the entries in order; for a record of the subject it clears \<open>valid\<close>
  and files the record under the entry's key again. A \<open>set\<close> on a present key neither
  adds nor moves an entry, so the entries visited are those the map holds when the loop
  starts.
\<close>

fun revokeFamily_loop :: "string \<Rightarrow> (string \<times> RefreshRecord) list \<Rightarrow> store \<Rightarrow> store" where
  "revokeFamily_loop subject [] st = st"
| "revokeFamily_loop subject ((key, rec) # entries) st =
     (if sub rec = subject
      then revokeFamily_loop subject entries (AList.update key (rec\<lparr>valid := False\<rparr>) st)
      else revokeFamily_loop subject entries st)"

definition revokeFamily :: "string \<Rightarrow> store \<Rightarrow> store" where
  "revokeFamily subject st = revokeFamily_loop subject st st"

subsection \<open>Sequences of operations\<close>

datatype operation =
    Issue int generated string
  | Rotate int generated token
  | Authenticate int authorization
  | RevokeAll string

text \<open>The store after one operation; \<open>authenticateJwt\<close> does not touch it.\<close>

fun step :: "AppEnv \<Rightarrow> operation \<Rightarrow> store \<Rightarrow> store" where
  "step env (Issue now g subject) st = snd (issueTokens env now g subject st)"
| "step env (Rotate now g t) st = snd (rotateRefreshToken env now g t st)"
| "step env (Authenticate now auth) st = st"
| "step env (RevokeAll subject) st = revokeFamily subject st"

fun run :: "AppEnv \<Rightarrow> operation list \<Rightarrow> store \<Rightarrow> store" where
  "run env [] st = st"
| "run env (x # xs) st = run env xs (step env x st)"

text \<open>The refresh id that an operation draws from the random source is not yet a key.\<close>

fun fresh_id :: "operation \<Rightarrow> store \<Rightarrow> bool" where
  "fresh_id (Issue now (accessId, refreshId, fam) subject) st \<longleftrightarrow> map_of st refreshId = None"
| "fresh_id (Rotate now (accessId, refreshId, fam) t) st \<longleftrightarrow> map_of st refreshId = None"
| "fresh_id _ st \<longleftrightarrow> True"

fun all_fresh :: "AppEnv \<Rightarrow> operation list \<Rightarrow> store \<Rightarrow> bool" where
  "all_fresh env [] st \<longleftrightarrow> True"
| "all_fresh env (x # xs) st \<longleftrightarrow> fresh_id x st \<and> all_fresh env xs (step env x st)"

text \<open>The number of valid records of a subject.\<close>

definition valid_count :: "string \<Rightarrow> store \<Rightarrow> nat" where
  "valid_count subject st = length (filter (\<lambda>(k, r). sub r = subject \<and> valid r) st)"

subsection \<open>Auxiliary definitions for the proofs\<close>

text \<open>What \<open>revokeFamily\<close> does to a single entry.\<close>

definition revoke_entry :: "string \<Rightarrow> string \<times> RefreshRecord \<Rightarrow> string \<times> RefreshRecord" where
  "revoke_entry s e = (fst e, if sub (snd e) = s then (snd e)\<lparr>valid := False\<rparr> else snd e)"

text \<open>
  A concrete run: a configuration with two different secrets, a login of \<open>app-1\<close> at
  clock reading 5000 on the empty store, a login of \<open>app-2\<close> after it, and the rotation
  of the first login's refresh token at clock reading 6000.
\<close>

definition demo_env :: AppEnv where
  "demo_env = \<lparr>JWT_ACCESS_SECRET = ''access-key'', JWT_REFRESH_SECRET = ''refresh-key'',
               JWT_ISSUER = ''ds-api'', JWT_AUDIENCE = ''ds-clients'',
               ACCESS_TOKEN_TTL = 900, REFRESH_TOKEN_TTL = 604800\<rparr>"


definition demo_login :: "token_pair \<times> store" where
  "demo_login = issueTokens demo_env 5000 (''a1'', ''r1'', ''f1'') ''app-1'' []"

definition demo_token :: token where
  "demo_token = refreshToken (fst demo_login)"

definition demo_store :: store where
  "demo_store = snd demo_login"

definition demo_store2 :: store where
  "demo_store2 = snd (issueTokens demo_env 5500 (''b1'', ''s1'', ''h1'') ''app-2'' demo_store)"

definition demo_rotated :: store where
  "demo_rotated = snd (rotateRefreshToken demo_env 6000 (''a2'', ''r2'', ''f2'') demo_token demo_store)"

section \<open>Basic facts\<close>

subsection \<open>Each operation in closed form\<close>

lemma issueTokens_eq:
  "issueTokens env now (a, r, f) s st =
     (\<lparr>accessToken = Jwt \<lparr>JwtPayload.sub = s, iss = JWT_ISSUER env, aud = JWT_AUDIENCE env, jti = a, type = access\<rparr>
                         (Some (now div 1000 + ACCESS_TOKEN_TTL env)) (JWT_ACCESS_SECRET env),
       refreshToken = Jwt \<lparr>JwtPayload.sub = s, iss = JWT_ISSUER env, aud = JWT_AUDIENCE env, jti = r, type = refresh\<rparr>
                         (Some (now div 1000 + REFRESH_TOKEN_TTL env)) (JWT_REFRESH_SECRET env)\<rparr>,
      AList.update r
        \<lparr>RefreshRecord.jti = r, sub = s, family = f, valid = True,
           expiresAt = (if now div 1000 + REFRESH_TOKEN_TTL env \<noteq> 0
                        then (now div 1000 + REFRESH_TOKEN_TTL env) * 1000
                        else now + 604800000)\<rparr> st)"
  by (simp add: issueTokens_def jwt_sign_def jwt_decode_exp_def)

lemma map_of_issue:
  "map_of (snd (issueTokens env now (a, r, f) s st)) k =
     (if k = r then Some \<lparr>RefreshRecord.jti = r, sub = s, family = f, valid = True,
           expiresAt = (if now div 1000 + REFRESH_TOKEN_TTL env \<noteq> 0
                        then (now div 1000 + REFRESH_TOKEN_TTL env) * 1000
                        else now + 604800000)\<rparr>
      else map_of st k)"
  by (simp add: issueTokens_eq update_conv')

lemma update_absent: "map_of st k = None \<Longrightarrow> AList.update k v st = st @ [(k, v)]"
  by (induction st) (auto split: if_splits)

lemma length_update_present: "map_of st k = Some old \<Longrightarrow> length (AList.update k v st) = length st"
  by (induction st) (auto split: if_splits)

lemma count_update:
  "map_of st k = Some old \<Longrightarrow>
     length (filter P (AList.update k v st)) + (if P (k, old) then 1 else 0)
       = length (filter P st) + (if P (k, v) then 1 else 0)"
  by (induction st) (auto split: if_splits)

lemma verify_issued_refresh:
  assumes "now div 1000 < now0 div 1000 + REFRESH_TOKEN_TTL env"
  shows "jwt_verify (refreshToken (fst (issueTokens env now0 (a, r, f) s st)))
           (JWT_REFRESH_SECRET env) (JWT_ISSUER env) (JWT_AUDIENCE env) now =
         Inr \<lparr>JwtPayload.sub = s, iss = JWT_ISSUER env, aud = JWT_AUDIENCE env, jti = r, type = refresh\<rparr>"
  using assms by (simp add: issueTokens_eq jwt_verify_def)

lemma verify_issued_access:
  assumes "now' div 1000 < now div 1000 + ACCESS_TOKEN_TTL env"
  shows "jwt_verify (accessToken (fst (issueTokens env now (a, r, f) s st)))
           (JWT_ACCESS_SECRET env) (JWT_ISSUER env) (JWT_AUDIENCE env) now' =
         Inr \<lparr>JwtPayload.sub = s, iss = JWT_ISSUER env, aud = JWT_AUDIENCE env, jti = a, type = access\<rparr>"
  using assms by (simp add: issueTokens_eq jwt_verify_def)

lemma verify_issued_refresh_cases:
  "jwt_verify (refreshToken (fst (issueTokens env now0 (a, r, f) s st)))
           (JWT_REFRESH_SECRET env) (JWT_ISSUER env) (JWT_AUDIENCE env) now =
     (if now div 1000 < now0 div 1000 + REFRESH_TOKEN_TTL env
      then Inr \<lparr>JwtPayload.sub = s, iss = JWT_ISSUER env, aud = JWT_AUDIENCE env, jti = r, type = refresh\<rparr>
      else Inl TokenExpiredError)"
  by (simp add: issueTokens_eq jwt_verify_def)

lemma rotate_ok:
  assumes "jwt_verify t (JWT_REFRESH_SECRET env) (JWT_ISSUER env) (JWT_AUDIENCE env) now = Inr p"
    and "type p = refresh"
    and "map_of st (JwtPayload.jti p) = Some rec"
    and "valid rec"
  shows "rotateRefreshToken env now g t st =
           (Inr (fst (issueTokens env now g (JwtPayload.sub p)
                   (AList.update (RefreshRecord.jti rec) (rec\<lparr>valid := False\<rparr>)
                      (AList.update (JwtPayload.jti p) (rec\<lparr>valid := False\<rparr>) st)))),
            snd (issueTokens env now g (JwtPayload.sub p)
                   (AList.update (RefreshRecord.jti rec) (rec\<lparr>valid := False\<rparr>)
                      (AList.update (JwtPayload.jti p) (rec\<lparr>valid := False\<rparr>) st))))"
  using assms by (simp add: rotateRefreshToken_def Let_def split_beta)

lemma rotate_invalid_record:
  assumes "jwt_verify t (JWT_REFRESH_SECRET env) (JWT_ISSUER env) (JWT_AUDIENCE env) now = Inr p"
    and "type p = refresh"
    and "map_of st (JwtPayload.jti p) = None \<or> (\<exists>rec. map_of st (JwtPayload.jti p) = Some rec \<and> \<not> valid rec)"
  shows "rotateRefreshToken env now g t st = (Inl refresh_reused_or_revoked, st)"
  using assms by (auto simp add: rotateRefreshToken_def)

lemma rotate_bad_token:
  assumes "(\<exists>e. jwt_verify t (JWT_REFRESH_SECRET env) (JWT_ISSUER env) (JWT_AUDIENCE env) now = Inl e) \<or>
           (\<exists>p. jwt_verify t (JWT_REFRESH_SECRET env) (JWT_ISSUER env) (JWT_AUDIENCE env) now = Inr p \<and> type p \<noteq> refresh)"
  shows "rotateRefreshToken env now g t st = (Inl invalid_refresh, st)"
  using assms by (auto simp add: rotateRefreshToken_def)

lemma rotate_marks_invalid:
  assumes v: "jwt_verify t (JWT_REFRESH_SECRET env) (JWT_ISSUER env) (JWT_AUDIENCE env) now = Inr p"
    and ty: "type p = refresh"
    and rec: "map_of st (JwtPayload.jti p) = Some rec" "valid rec"
    and ne: "r \<noteq> JwtPayload.jti p"
  shows "\<exists>rec'. map_of (snd (rotateRefreshToken env now (a, r, f) t st)) (JwtPayload.jti p) = Some rec'
                \<and> \<not> valid rec'"
  unfolding rotate_ok[OF v ty rec] using ne
  by (simp add: map_of_issue update_conv')

subsection \<open>revokeFamily as a map over the entries\<close>

text \<open>
  On a store with one entry per key the loop rewrites each entry where it stands, so the
  result is the entry-wise image of the store.
\<close>

lemma update_middle:
  "k \<notin> fst ` set pre \<Longrightarrow> AList.update k v (pre @ (k, w) # es) = pre @ (k, v) # es"
  by (induction pre) auto

lemma loop_suffix:
  "distinct (map fst (pre @ es)) \<Longrightarrow>
     revokeFamily_loop s es (pre @ es) = pre @ map (revoke_entry s) es"
proof (induction es arbitrary: pre)
  case Nil
  then show ?case by simp
next
  case (Cons e es)
  obtain key rec where e: "e = (key, rec)" by (cases e)
  have notin: "key \<notin> fst ` set pre" using Cons.prems e by auto
  show ?case
  proof (cases "sub rec = s")
    case True
    have d: "distinct (map fst ((pre @ [(key, rec\<lparr>valid := False\<rparr>)]) @ es))"
      using Cons.prems e by simp
    have "revokeFamily_loop s (e # es) (pre @ e # es) =
            revokeFamily_loop s es ((pre @ [(key, rec\<lparr>valid := False\<rparr>)]) @ es)"
      using True e by (simp add: update_middle[OF notin])
    also have "\<dots> = (pre @ [(key, rec\<lparr>valid := False\<rparr>)]) @ map (revoke_entry s) es"
      by (rule Cons.IH[OF d])
    finally show ?thesis using True e by (simp add: revoke_entry_def)
  next
    case False
    have d: "distinct (map fst ((pre @ [e]) @ es))" using Cons.prems by simp
    have "revokeFamily_loop s (e # es) (pre @ e # es) = revokeFamily_loop s es ((pre @ [e]) @ es)"
      using False e by simp
    also have "\<dots> = (pre @ [e]) @ map (revoke_entry s) es"
      by (rule Cons.IH[OF d])
    finally show ?thesis using False e by (simp add: revoke_entry_def)
  qed
qed

lemma revokeFamily_map:
  "distinct (map fst st) \<Longrightarrow> revokeFamily s st = map (revoke_entry s) st"
  using loop_suffix[of "[]" st s] by (simp add: revokeFamily_def)

lemma revoke_entry_idem: "revoke_entry s (revoke_entry s e) = revoke_entry s e"
  by (simp add: revoke_entry_def)

lemma keys_revoke: "map fst (map (revoke_entry s) st) = map fst st"
  by (induction st) (simp_all add: revoke_entry_def)

lemma map_of_revoke:
  "map_of (map (revoke_entry s) st) k =
     map_option (\<lambda>r. if sub r = s then r\<lparr>valid := False\<rparr> else r) (map_of st k)"
  by (induction st) (auto simp add: revoke_entry_def)

lemma loop_no_records:
  "\<forall>e \<in> set es. sub (snd e) \<noteq> s \<Longrightarrow> revokeFamily_loop s es st = st"
  by (induction es arbitrary: st) auto

subsection \<open>An invalid record stays invalid\<close>

lemma loop_keeps_invalid:
  "map_of st k = Some r \<Longrightarrow> \<not> valid r \<Longrightarrow>
     \<exists>r'. map_of (revokeFamily_loop s es st) k = Some r' \<and> \<not> valid r'"
proof (induction es arbitrary: st r)
  case Nil
  then show ?case by simp
next
  case (Cons e es)
  obtain key rec where e: "e = (key, rec)" by (cases e)
  show ?case
  proof (cases "sub rec = s")
    case True
    have "\<exists>r1. map_of (AList.update key (rec\<lparr>valid := False\<rparr>) st) k = Some r1 \<and> \<not> valid r1"
      using Cons.prems by (simp add: update_conv')
    then obtain r1 where "map_of (AList.update key (rec\<lparr>valid := False\<rparr>) st) k = Some r1" "\<not> valid r1"
      by blast
    from Cons.IH[OF this] show ?thesis using True e by simp
  next
    case False
    then show ?thesis using Cons e by simp
  qed
qed

lemma step_keeps_invalid:
  assumes "fresh_id x st" and "map_of st k = Some r" and "\<not> valid r"
  shows "\<exists>r'. map_of (step env x st) k = Some r' \<and> \<not> valid r'"
proof (cases x)
  case (Issue now g s)
  obtain a rid f where g: "g = (a, rid, f)" by (cases g)
  have "k \<noteq> rid" using assms Issue g by auto
  then show ?thesis using assms Issue g by (simp add: map_of_issue)
next
  case (Rotate now g t)
  obtain a rid f where g: "g = (a, rid, f)" by (cases g)
  have ne: "k \<noteq> rid" using assms Rotate g by auto
  show ?thesis
  proof (cases "jwt_verify t (JWT_REFRESH_SECRET env) (JWT_ISSUER env) (JWT_AUDIENCE env) now")
    case (Inl e)
    then show ?thesis using assms Rotate by (simp add: rotate_bad_token)
  next
    case (Inr p)
    show ?thesis
    proof (cases "type p = refresh \<and> (\<exists>rec. map_of st (JwtPayload.jti p) = Some rec \<and> valid rec)")
      case True
      then obtain rec where rec: "type p = refresh" "map_of st (JwtPayload.jti p) = Some rec" "valid rec"
        by blast
      show ?thesis
        using assms ne unfolding Rotate g step.simps rotate_ok[OF Inr rec]
        by (simp add: map_of_issue update_conv')
    next
      case False
      then have "snd (rotateRefreshToken env now g t st) = st"
        using Inr by (auto simp add: rotateRefreshToken_def split: option.splits)
      then show ?thesis using assms Rotate by simp
    qed
  qed
next
  case (Authenticate now auth)
  then show ?thesis using assms by simp
next
  case (RevokeAll s)
  then show ?thesis using assms loop_keeps_invalid by (simp add: revokeFamily_def)
qed

lemma run_keeps_invalid:
  "all_fresh env xs st \<Longrightarrow> map_of st k = Some r \<Longrightarrow> \<not> valid r \<Longrightarrow>
     \<exists>r'. map_of (run env xs st) k = Some r' \<and> \<not> valid r'"
proof (induction xs arbitrary: st r)
  case Nil
  then show ?case by simp
next
  case (Cons x xs)
  from Cons.prems have "fresh_id x st" and fr: "all_fresh env xs (step env x st)" by simp_all
  from step_keeps_invalid[OF this(1) Cons.prems(2,3)]
  obtain r1 where "map_of (step env x st) k = Some r1" "\<not> valid r1" by blast
  from Cons.IH[OF fr this] show ?case by simp
qed

subsection \<open>Well-formed stores\<close>

text \<open>The empty store is well formed and every operation keeps a store well formed.\<close>

lemma wf_empty: "wf_store []"
  by (simp add: wf_store_def)

lemma wf_update:
  "wf_store st \<Longrightarrow> RefreshRecord.jti r = k \<Longrightarrow> wf_store (AList.update k r st)"
proof (induction st)
  case Nil
  then show ?case by (simp add: wf_store_def)
next
  case (Cons e st)
  then have "wf_store st" by (simp add: wf_store_def)
  with Cons have ih: "wf_store (AList.update k r st)" by simp
  show ?case
  proof (cases "fst e = k")
    case True
    then show ?thesis using Cons.prems by (simp add: wf_store_def)
  next
    case False
    then show ?thesis using Cons.prems ih
      by (auto simp add: wf_store_def dom_update)
  qed
qed

lemma wf_lookup: "wf_store st \<Longrightarrow> map_of st k = Some r \<Longrightarrow> RefreshRecord.jti r = k"
  by (induction st) (auto simp add: wf_store_def split: if_splits)

lemma wf_issue: "wf_store st \<Longrightarrow> wf_store (snd (issueTokens env now g s st))"
  by (cases g) (simp add: issueTokens_eq wf_update)

lemma wf_revoke: "wf_store st \<Longrightarrow> wf_store (revokeFamily s st)"
proof -
  assume w: "wf_store st"
  then have d: "distinct (map fst st)" by (simp add: wf_store_def)
  have "list_all (\<lambda>(k, r). RefreshRecord.jti r = k) st \<Longrightarrow>
        list_all (\<lambda>(k, r). RefreshRecord.jti r = k) (map (revoke_entry s) st)"
    by (induction st) (auto simp add: revoke_entry_def)
  moreover have "distinct (map fst (map (revoke_entry s) st))"
    using d by (simp only: keys_revoke)
  ultimately show ?thesis using w d by (simp add: revokeFamily_map wf_store_def del: map_map)
qed

lemma wf_rotate: "wf_store st \<Longrightarrow> wf_store (snd (rotateRefreshToken env now g t st))"
proof -
  assume w: "wf_store st"
  show ?thesis
  proof (cases "\<exists>p rec. jwt_verify t (JWT_REFRESH_SECRET env) (JWT_ISSUER env) (JWT_AUDIENCE env) now = Inr p
                  \<and> type p = refresh \<and> map_of st (JwtPayload.jti p) = Some rec \<and> valid rec")
    case True
    then obtain p rec where h: "jwt_verify t (JWT_REFRESH_SECRET env) (JWT_ISSUER env) (JWT_AUDIENCE env) now = Inr p"
      "type p = refresh" "map_of st (JwtPayload.jti p) = Some rec" "valid rec" by blast
    have j: "RefreshRecord.jti rec = JwtPayload.jti p" using wf_lookup[OF w h(3)] .
    show ?thesis unfolding rotate_ok[OF h] snd_conv
      by (intro wf_issue wf_update w) (simp_all add: j)
  next
    case False
    then have "snd (rotateRefreshToken env now g t st) = st"
      by (auto simp add: rotateRefreshToken_def split: sum.splits option.splits)
    then show ?thesis using w by simp
  qed
qed

lemma wf_step: "wf_store st \<Longrightarrow> wf_store (step env x st)"
  by (cases x) (simp_all add: wf_issue wf_rotate wf_revoke)

lemma wf_run: "wf_store st \<Longrightarrow> wf_store (run env xs st)"
  by (induction xs arbitrary: st) (simp_all add: wf_step)

subsection \<open>The concrete run, evaluated\<close>

lemma demo_token_eq:
  "demo_token = Jwt \<lparr>JwtPayload.sub = ''app-1'', iss = ''ds-api'', aud = ''ds-clients'', jti = ''r1'', type = refresh\<rparr>
                    (Some 604805) ''refresh-key''"
  by (simp add: demo_token_def demo_login_def demo_env_def issueTokens_eq)

lemma demo_store_eq:
  "demo_store = [(''r1'', \<lparr>RefreshRecord.jti = ''r1'', sub = ''app-1'', family = ''f1'', valid = True,
                           expiresAt = 604805000\<rparr>)]"
  by (simp add: demo_store_def demo_login_def demo_env_def issueTokens_eq)

lemma demo_store2_eq:
  "demo_store2 = [(''r1'', \<lparr>RefreshRecord.jti = ''r1'', sub = ''app-1'', family = ''f1'', valid = True,
                            expiresAt = 604805000\<rparr>),
                  (''s1'', \<lparr>RefreshRecord.jti = ''s1'', sub = ''app-2'', family = ''h1'', valid = True,
                            expiresAt = 604805000\<rparr>)]"
  by (simp add: demo_store2_def demo_store_eq demo_env_def issueTokens_eq)

lemma demo_verify:
  "jwt_verify demo_token (JWT_REFRESH_SECRET demo_env) (JWT_ISSUER demo_env) (JWT_AUDIENCE demo_env) 6000
     = Inr \<lparr>JwtPayload.sub = ''app-1'', iss = ''ds-api'', aud = ''ds-clients'', jti = ''r1'', type = refresh\<rparr>"
  by (simp add: demo_token_eq demo_env_def jwt_verify_def)

lemma demo_verify_at:
  "now div 1000 < 604805 \<Longrightarrow>
   jwt_verify demo_token (JWT_REFRESH_SECRET demo_env) (JWT_ISSUER demo_env) (JWT_AUDIENCE demo_env) now
     = Inr \<lparr>JwtPayload.sub = ''app-1'', iss = ''ds-api'', aud = ''ds-clients'', jti = ''r1'', type = refresh\<rparr>"
  by (simp add: demo_token_eq demo_env_def jwt_verify_def)

lemma demo_rotation_eq:
  "rotateRefreshToken demo_env 6000 (''a2'', ''r2'', ''f2'') demo_token demo_store =
     (Inr \<lparr>accessToken = Jwt \<lparr>JwtPayload.sub = ''app-1'', iss = ''ds-api'', aud = ''ds-clients'',
                                jti = ''a2'', type = access\<rparr> (Some 906) ''access-key'',
            refreshToken = Jwt \<lparr>JwtPayload.sub = ''app-1'', iss = ''ds-api'', aud = ''ds-clients'',
                                 jti = ''r2'', type = refresh\<rparr> (Some 604806) ''refresh-key''\<rparr>,
      [(''r1'', \<lparr>RefreshRecord.jti = ''r1'', sub = ''app-1'', family = ''f1'', valid = False,
                 expiresAt = 604805000\<rparr>),
       (''r2'', \<lparr>RefreshRecord.jti = ''r2'', sub = ''app-1'', family = ''f2'', valid = True,
                 expiresAt = 604806000\<rparr>)])"
  by (simp add: rotateRefreshToken_def demo_verify demo_store_eq issueTokens_eq, simp add: demo_env_def)

lemma demo_rotated_eq:
  "demo_rotated =
      [(''r1'', \<lparr>RefreshRecord.jti = ''r1'', sub = ''app-1'', family = ''f1'', valid = False,
                 expiresAt = 604805000\<rparr>),
       (''r2'', \<lparr>RefreshRecord.jti = ''r2'', sub = ''app-1'', family = ''f2'', valid = True,
                 expiresAt = 604806000\<rparr>)]"
  by (simp add: demo_rotated_def demo_rotation_eq)

section \<open>The claims\<close>

text \<open>
  C1: rotation is single-use. Take a refresh token returned by \<open>issueTokens\<close> whose
  ledger record is present and valid. While the token is unexpired and the id drawn for
  the replacement is fresh, \<open>rotateRefreshToken\<close> succeeds on it; and after that,
  whatever operations with fresh ids follow, presenting the same unexpired token again
  fails with \<open>refresh_reused_or_revoked\<close>.
\<close>

theorem rotation_single_use:
  assumes issued: "t = refreshToken (fst (issueTokens env now0 (a0, r0, f0) s st0))"
    and rec: "map_of st r0 = Some rec" "valid rec"
    and live: "now1 div 1000 < now0 div 1000 + REFRESH_TOKEN_TTL env"
    and fresh: "map_of st r1 = None"
  shows "(\<exists>pair. fst (rotateRefreshToken env now1 (a1, r1, f1) t st) = Inr pair)
       \<and> (\<forall>xs now2 g2.
            all_fresh env xs (snd (rotateRefreshToken env now1 (a1, r1, f1) t st))
            \<and> now2 div 1000 < now0 div 1000 + REFRESH_TOKEN_TTL env
            \<longrightarrow> fst (rotateRefreshToken env now2 g2 t
                       (run env xs (snd (rotateRefreshToken env now1 (a1, r1, f1) t st))))
                = Inl refresh_reused_or_revoked)"
proof -
  let ?p = "\<lparr>JwtPayload.sub = s, iss = JWT_ISSUER env, aud = JWT_AUDIENCE env, jti = r0, type = refresh\<rparr>"
  let ?st2 = "snd (rotateRefreshToken env now1 (a1, r1, f1) t st)"
  have v1: "jwt_verify t (JWT_REFRESH_SECRET env) (JWT_ISSUER env) (JWT_AUDIENCE env) now1 = Inr ?p"
    unfolding issued using live by (rule verify_issued_refresh)
  have ty: "type ?p = refresh" and j: "JwtPayload.jti ?p = r0" by simp_all
  have rec': "map_of st (JwtPayload.jti ?p) = Some rec" using rec(1) by simp
  have first: "\<exists>pair. fst (rotateRefreshToken env now1 (a1, r1, f1) t st) = Inr pair"
    unfolding rotate_ok[OF v1 ty rec' rec(2)] by simp
  have ne: "r1 \<noteq> JwtPayload.jti ?p" using fresh rec(1) by auto
  from rotate_marks_invalid[OF v1 ty rec' rec(2) ne]
  obtain q where q: "map_of ?st2 r0 = Some q" "\<not> valid q" by auto
  have second: "fst (rotateRefreshToken env now2 g2 t (run env xs ?st2)) = Inl refresh_reused_or_revoked"
    if fr: "all_fresh env xs ?st2" and live2: "now2 div 1000 < now0 div 1000 + REFRESH_TOKEN_TTL env"
    for xs now2 g2
  proof -
    have v2: "jwt_verify t (JWT_REFRESH_SECRET env) (JWT_ISSUER env) (JWT_AUDIENCE env) now2 = Inr ?p"
      unfolding issued using live2 by (rule verify_issued_refresh)
    from run_keeps_invalid[OF fr q] obtain q' where
      "map_of (run env xs ?st2) r0 = Some q'" "\<not> valid q'" by blast
    then have "map_of (run env xs ?st2) (JwtPayload.jti ?p) = None \<or>
               (\<exists>rec. map_of (run env xs ?st2) (JwtPayload.jti ?p) = Some rec \<and> \<not> valid rec)"
      by simp
    from rotate_invalid_record[OF v2 ty this] show ?thesis by simp
  qed
  from first second show ?thesis by blast
qed

theorem rotation_single_use_witness:
  "(\<exists>pair. fst (rotateRefreshToken demo_env 6000 (''a2'', ''r2'', ''f2'') demo_token demo_store) = Inr pair)
   \<and> fst (rotateRefreshToken demo_env 7000 (''a4'', ''r4'', ''f4'') demo_token
            (run demo_env [Issue 6500 (''a3'', ''r3'', ''f3'') ''app-2'', Authenticate 6600 (Bearer demo_token)]
               demo_rotated))
       = Inl refresh_reused_or_revoked"
proof -
  let ?rec = "\<lparr>RefreshRecord.jti = ''r1'', sub = ''app-1'', family = ''f1'', valid = True, expiresAt = 604805000\<rparr>"
  let ?ops = "[Issue 6500 (''a3'', ''r3'', ''f3'') ''app-2'', Authenticate 6600 (Bearer demo_token)]"
  have h1: "demo_token = refreshToken (fst (issueTokens demo_env 5000 (''a1'', ''r1'', ''f1'') ''app-1'' []))"
    by (simp add: demo_token_def demo_login_def)
  have h2: "map_of demo_store ''r1'' = Some ?rec" by (simp add: demo_store_eq)
  have h3: "valid ?rec" by simp
  have h4: "(6000::int) div 1000 < 5000 div 1000 + REFRESH_TOKEN_TTL demo_env" by (simp add: demo_env_def)
  have h5: "map_of demo_store ''r2'' = None" by (simp add: demo_store_eq)
  have h6: "all_fresh demo_env ?ops (snd (rotateRefreshToken demo_env 6000 (''a2'', ''r2'', ''f2'') demo_token demo_store))"
    unfolding demo_rotated_def[symmetric] by (simp add: demo_rotated_eq)
  have h7: "(7000::int) div 1000 < 5000 div 1000 + REFRESH_TOKEN_TTL demo_env" by (simp add: demo_env_def)
  from rotation_single_use[OF h1 h2 h3 h4 h5, of "''a2''" "''f2''"] h6 h7
  show ?thesis unfolding demo_rotated_def by blast
qed

text \<open>
  C2: the ledger records along a chain of rotations do not share one \<open>family\<close>. In the
  concrete run the login files its record under family \<open>f1\<close>, and the rotation of its
  token files the replacement under the family drawn anew, \<open>f2\<close>, although the source
  announces the replacement as issued in the same family.
\<close>

theorem rotation_draws_new_family:
  "map_option family (map_of demo_rotated ''r1'') = Some ''f1''
   \<and> map_option family (map_of demo_rotated ''r2'') = Some ''f2''
   \<and> map_option family (map_of demo_rotated ''r2'') \<noteq> map_option family (map_of demo_rotated ''r1'')"
  by (simp add: demo_rotated_eq)

text \<open>
  C3: monotonic consumption. A record that is invalid stays present and invalid through
  every sequence of operations (issue, rotate, authenticate, revoke-all) whose generated
  refresh ids are fresh: \<open>valid\<close> never goes from false to true.
\<close>

theorem isValid_never_restored:
  assumes "all_fresh env xs st" and "map_of st k = Some r" and "\<not> valid r"
  shows "\<exists>r'. map_of (run env xs st) k = Some r' \<and> \<not> valid r'"
  using assms by (rule run_keeps_invalid)

theorem isValid_never_restored_witness:
  "all_fresh demo_env
     [Issue 6500 (''a3'', ''r3'', ''f3'') ''app-1'', Rotate 7000 (''a4'', ''r4'', ''f4'') demo_token,
      Authenticate 7000 (Bearer demo_token), RevokeAll ''app-1''] demo_rotated
   \<and> map_option valid (map_of demo_rotated ''r1'') = Some False
   \<and> (\<exists>r'. map_of (run demo_env
              [Issue 6500 (''a3'', ''r3'', ''f3'') ''app-1'', Rotate 7000 (''a4'', ''r4'', ''f4'') demo_token,
               Authenticate 7000 (Bearer demo_token), RevokeAll ''app-1''] demo_rotated) ''r1'' = Some r'
           \<and> \<not> valid r')"
proof -
  let ?ops = "[Issue 6500 (''a3'', ''r3'', ''f3'') ''app-1'', Rotate 7000 (''a4'', ''r4'', ''f4'') demo_token,
      Authenticate 7000 (Bearer demo_token), RevokeAll ''app-1'']"
  let ?r = "\<lparr>RefreshRecord.jti = ''r1'', sub = ''app-1'', family = ''f1'', valid = False, expiresAt = 604805000\<rparr>"
  have st1: "step demo_env (Issue 6500 (''a3'', ''r3'', ''f3'') ''app-1'') demo_rotated =
       [(''r1'', ?r),
        (''r2'', \<lparr>RefreshRecord.jti = ''r2'', sub = ''app-1'', family = ''f2'', valid = True, expiresAt = 604806000\<rparr>),
        (''r3'', \<lparr>RefreshRecord.jti = ''r3'', sub = ''app-1'', family = ''f3'', valid = True, expiresAt = 604806000\<rparr>)]"
    by (simp add: demo_rotated_eq issueTokens_eq demo_env_def)
  have st2: "step demo_env (Rotate 7000 (''a4'', ''r4'', ''f4'') demo_token)
               (step demo_env (Issue 6500 (''a3'', ''r3'', ''f3'') ''app-1'') demo_rotated)
             = step demo_env (Issue 6500 (''a3'', ''r3'', ''f3'') ''app-1'') demo_rotated"
    unfolding st1 by (simp add: rotateRefreshToken_def demo_verify_at)
  have h1: "all_fresh demo_env ?ops demo_rotated"
    unfolding all_fresh.simps st2 fresh_id.simps
    unfolding st1 by (simp add: demo_rotated_eq)
  have h2: "map_of demo_rotated ''r1'' = Some ?r" by (simp add: demo_rotated_eq)
  have h3: "\<not> valid ?r" by simp
  from isValid_never_restored[OF h1 h2 h3] h1 h2 show ?thesis by simp
qed

text \<open>
  C4: rotation preserves the subject. When the refresh token issued for subject \<open>s\<close>
  is rotated successfully, the returned pair is the pair minted for \<open>s\<close> under the ids
  just drawn: while unexpired, the new access token verifies against the access secret
  (and passes \<open>authenticateJwt\<close>) with subject \<open>s\<close> and the new access id, and the
  new refresh token verifies against the refresh secret with subject \<open>s\<close> and the new
  refresh id.
\<close>

theorem rotation_preserves_subject:
  assumes "rotateRefreshToken env now (a, r, f) (refreshToken (fst (issueTokens env now0 g0 s st0))) st
             = (Inr pair, st')"
  shows "pair = fst (issueTokens env now (a, r, f) s st)
       \<and> (\<forall>now'. now' div 1000 < now div 1000 + ACCESS_TOKEN_TTL env \<longrightarrow>
             jwt_verify (accessToken pair) (JWT_ACCESS_SECRET env) (JWT_ISSUER env) (JWT_AUDIENCE env) now'
               = Inr \<lparr>JwtPayload.sub = s, iss = JWT_ISSUER env, aud = JWT_AUDIENCE env, jti = a, type = access\<rparr>
           \<and> authenticateJwt env now' (Bearer (accessToken pair))
               = Next \<lparr>JwtPayload.sub = s, iss = JWT_ISSUER env, aud = JWT_AUDIENCE env, jti = a, type = access\<rparr>)
       \<and> (\<forall>now'. now' div 1000 < now div 1000 + REFRESH_TOKEN_TTL env \<longrightarrow>
             jwt_verify (refreshToken pair) (JWT_REFRESH_SECRET env) (JWT_ISSUER env) (JWT_AUDIENCE env) now'
               = Inr \<lparr>JwtPayload.sub = s, iss = JWT_ISSUER env, aud = JWT_AUDIENCE env, jti = r, type = refresh\<rparr>)
       \<and> map_option JwtPayload.sub (jwt_decode (accessToken pair)) = Some s
       \<and> map_option JwtPayload.sub (jwt_decode (refreshToken pair)) = Some s
       \<and> map_option JwtPayload.jti (jwt_decode (accessToken pair)) = Some a
       \<and> map_option JwtPayload.jti (jwt_decode (refreshToken pair)) = Some r"
proof -
  obtain a0 r0 f0 where g0: "g0 = (a0, r0, f0)" by (cases g0)
  let ?t = "refreshToken (fst (issueTokens env now0 (a0, r0, f0) s st0))"
  let ?p = "\<lparr>JwtPayload.sub = s, iss = JWT_ISSUER env, aud = JWT_AUDIENCE env, jti = r0, type = refresh\<rparr>"
  let ?pa = "\<lparr>JwtPayload.sub = s, iss = JWT_ISSUER env, aud = JWT_AUDIENCE env, jti = a, type = access\<rparr>"
  have v: "jwt_verify ?t (JWT_REFRESH_SECRET env) (JWT_ISSUER env) (JWT_AUDIENCE env) now = Inr ?p"
    using assms unfolding g0
    by (simp add: verify_issued_refresh_cases rotateRefreshToken_def split: if_splits)
  from assms obtain rec where rec: "map_of st r0 = Some rec" "valid rec"
    unfolding g0 rotateRefreshToken_def v by (auto split: option.splits if_splits)
  have "pair = fst (issueTokens env now (a, r, f) s
                 (AList.update (RefreshRecord.jti rec) (rec\<lparr>valid := False\<rparr>)
                    (AList.update r0 (rec\<lparr>valid := False\<rparr>) st)))"
    using assms rotate_ok[OF v _ _ rec(2), of st "(a, r, f)"] rec(1) unfolding g0 by simp
  then have pair: "pair = fst (issueTokens env now (a, r, f) s st)"
    by (simp add: issueTokens_eq)
  have acc: "jwt_verify (accessToken pair) (JWT_ACCESS_SECRET env) (JWT_ISSUER env) (JWT_AUDIENCE env) now' = Inr ?pa
             \<and> authenticateJwt env now' (Bearer (accessToken pair)) = Next ?pa"
    if "now' div 1000 < now div 1000 + ACCESS_TOKEN_TTL env" for now'
  proof -
    have 1: "jwt_verify (accessToken pair) (JWT_ACCESS_SECRET env) (JWT_ISSUER env) (JWT_AUDIENCE env) now' = Inr ?pa"
      unfolding pair using that by (rule verify_issued_access)
    have "accessToken pair \<noteq> NotJwt []" by (simp add: pair issueTokens_eq)
    then have "authenticateJwt env now' (Bearer (accessToken pair)) = Next ?pa"
      using 1 by (simp add: authenticateJwt_def)
    with 1 show ?thesis by simp
  qed
  have ref: "jwt_verify (refreshToken pair) (JWT_REFRESH_SECRET env) (JWT_ISSUER env) (JWT_AUDIENCE env) now'
               = Inr \<lparr>JwtPayload.sub = s, iss = JWT_ISSUER env, aud = JWT_AUDIENCE env, jti = r, type = refresh\<rparr>"
    if "now' div 1000 < now div 1000 + REFRESH_TOKEN_TTL env" for now'
    unfolding pair using that by (rule verify_issued_refresh)
  have dec: "map_option JwtPayload.sub (jwt_decode (accessToken pair)) = Some s
       \<and> map_option JwtPayload.sub (jwt_decode (refreshToken pair)) = Some s
       \<and> map_option JwtPayload.jti (jwt_decode (accessToken pair)) = Some a
       \<and> map_option JwtPayload.jti (jwt_decode (refreshToken pair)) = Some r"
    by (simp add: pair issueTokens_eq jwt_decode_def)
  from pair acc ref dec show ?thesis by blast
qed

theorem rotation_preserves_subject_witness:
  "jwt_verify (accessToken (projr (fst (rotateRefreshToken demo_env 6000 (''a2'', ''r2'', ''f2'') demo_token demo_store))))
      (JWT_ACCESS_SECRET demo_env) (JWT_ISSUER demo_env) (JWT_AUDIENCE demo_env) 6500
     = Inr \<lparr>JwtPayload.sub = ''app-1'', iss = ''ds-api'', aud = ''ds-clients'', jti = ''a2'', type = access\<rparr>
   \<and> authenticateJwt demo_env 6500
       (Bearer (accessToken (projr (fst (rotateRefreshToken demo_env 6000 (''a2'', ''r2'', ''f2'') demo_token demo_store)))))
     = Next \<lparr>JwtPayload.sub = ''app-1'', iss = ''ds-api'', aud = ''ds-clients'', jti = ''a2'', type = access\<rparr>
   \<and> jwt_verify (refreshToken (projr (fst (rotateRefreshToken demo_env 6000 (''a2'', ''r2'', ''f2'') demo_token demo_store))))
      (JWT_REFRESH_SECRET demo_env) (JWT_ISSUER demo_env) (JWT_AUDIENCE demo_env) 6500
     = Inr \<lparr>JwtPayload.sub = ''app-1'', iss = ''ds-api'', aud = ''ds-clients'', jti = ''r2'', type = refresh\<rparr>"
proof -
  let ?R = "rotateRefreshToken demo_env 6000 (''a2'', ''r2'', ''f2'') demo_token demo_store"
  have h: "rotateRefreshToken demo_env 6000 (''a2'', ''r2'', ''f2'')
             (refreshToken (fst (issueTokens demo_env 5000 (''a1'', ''r1'', ''f1'') ''app-1'' []))) demo_store
           = (Inr (projr (fst ?R)), snd ?R)"
    unfolding demo_token_def[symmetric, unfolded demo_login_def] by (simp add: demo_rotation_eq)
  have la: "(6500::int) div 1000 < 6000 div 1000 + ACCESS_TOKEN_TTL demo_env" by (simp add: demo_env_def)
  have lr: "(6500::int) div 1000 < 6000 div 1000 + REFRESH_TOKEN_TTL demo_env" by (simp add: demo_env_def)
  have env: "JWT_ISSUER demo_env = ''ds-api''" "JWT_AUDIENCE demo_env = ''ds-clients''"
    by (simp_all add: demo_env_def)
  from rotation_preserves_subject[OF h] la lr show ?thesis unfolding env by blast
qed




text \<open>
  C6: wrong-kind rejection, as the code has it. The claim that every refresh token
  presented to \<open>authenticateJwt\<close> is answered with \<open>invalid_token_type\<close> fails for the
  refresh token of the concrete run: it is signed with the refresh secret, so the
  verification against the access secret already rejects it with \<open>invalid_token\<close>.
\<close>

theorem refresh_token_at_authenticate_counterexample:
  "map_option type (jwt_decode demo_token) = Some refresh
   \<and> authenticateJwt demo_env 6000 (Bearer demo_token) = Respond 401 ''invalid_token''
   \<and> authenticateJwt demo_env 6000 (Bearer demo_token) \<noteq> Respond 401 ''invalid_token_type''"
  by (simp add: demo_token_eq jwt_decode_def authenticateJwt_def jwt_verify_def demo_env_def)

text \<open>
  C6, amended: a token that verifies against the access secret and decodes to kind
  refresh is answered with \<open>invalid_token_type\<close>; an issued refresh token, when the two
  secrets differ, is answered with \<open>invalid_token\<close>; and every token that decodes to
  kind access fails \<open>rotateRefreshToken\<close> with \<open>invalid_refresh\<close>, the store unchanged.
\<close>

theorem wrong_kind_rejection:
  "(jwt_verify t (JWT_ACCESS_SECRET env) (JWT_ISSUER env) (JWT_AUDIENCE env) now = Inr p \<and> type p = refresh
      \<longrightarrow> authenticateJwt env now (Bearer t) = Respond 401 ''invalid_token_type'')
   \<and> (JWT_REFRESH_SECRET env \<noteq> JWT_ACCESS_SECRET env
      \<longrightarrow> authenticateJwt env now (Bearer (refreshToken (fst (issueTokens env now0 g0 s st0))))
            = Respond 401 ''invalid_token'')
   \<and> (map_option type (jwt_decode t') = Some access
      \<longrightarrow> rotateRefreshToken env now g t' st = (Inl invalid_refresh, st))"
proof -
  have a: "authenticateJwt env now (Bearer t) = Respond 401 ''invalid_token_type''"
    if "jwt_verify t (JWT_ACCESS_SECRET env) (JWT_ISSUER env) (JWT_AUDIENCE env) now = Inr p"
      and "type p = refresh"
  proof -
    have "t \<noteq> NotJwt []" using that(1) by (auto simp add: jwt_verify_def)
    then show ?thesis using that by (simp add: authenticateJwt_def)
  qed
  have b: "authenticateJwt env now (Bearer (refreshToken (fst (issueTokens env now0 g0 s st0))))
            = Respond 401 ''invalid_token''"
    if "JWT_REFRESH_SECRET env \<noteq> JWT_ACCESS_SECRET env"
    using that by (cases g0) (simp add: issueTokens_eq authenticateJwt_def jwt_verify_def)
  have c: "rotateRefreshToken env now g t' st = (Inl invalid_refresh, st)"
    if "map_option type (jwt_decode t') = Some access"
  proof (rule rotate_bad_token)
    show "(\<exists>e. jwt_verify t' (JWT_REFRESH_SECRET env) (JWT_ISSUER env) (JWT_AUDIENCE env) now = Inl e) \<or>
          (\<exists>p. jwt_verify t' (JWT_REFRESH_SECRET env) (JWT_ISSUER env) (JWT_AUDIENCE env) now = Inr p
               \<and> type p \<noteq> refresh)"
      using that by (cases t') (auto simp add: jwt_decode_def jwt_verify_def split: option.splits)
  qed
  from a b c show ?thesis by blast
qed

theorem wrong_kind_rejection_witness:
  "authenticateJwt demo_env 6000
     (Bearer (Jwt \<lparr>JwtPayload.sub = ''app-1'', iss = ''ds-api'', aud = ''ds-clients'', jti = ''r9'', type = refresh\<rparr>
                  (Some 604805) ''access-key''))
     = Respond 401 ''invalid_token_type''
   \<and> authenticateJwt demo_env 6000 (Bearer demo_token) = Respond 401 ''invalid_token''
   \<and> rotateRefreshToken demo_env 6000 (''a2'', ''r2'', ''f2'') (accessToken (fst demo_login)) demo_store
       = (Inl invalid_refresh, demo_store)"
proof -
  let ?p = "\<lparr>JwtPayload.sub = ''app-1'', iss = ''ds-api'', aud = ''ds-clients'', jti = ''r9'', type = refresh\<rparr>"
  let ?t = "Jwt ?p (Some 604805) ''access-key''"
  have a: "jwt_verify ?t (JWT_ACCESS_SECRET demo_env) (JWT_ISSUER demo_env) (JWT_AUDIENCE demo_env) 6000 = Inr ?p
           \<and> type ?p = refresh"
    by (simp add: jwt_verify_def demo_env_def)
  have b: "JWT_REFRESH_SECRET demo_env \<noteq> JWT_ACCESS_SECRET demo_env" by (simp add: demo_env_def)
  have c: "map_option type (jwt_decode (accessToken (fst demo_login))) = Some access"
    by (simp add: demo_login_def issueTokens_eq jwt_decode_def)
  from wrong_kind_rejection[of ?t demo_env 6000 ?p 5000 "(''a1'', ''r1'', ''f1'')" "''app-1''" "[]"
         "accessToken (fst demo_login)" "(''a2'', ''r2'', ''f2'')" demo_store] a b c
  show ?thesis unfolding demo_token_def demo_login_def by blast
qed

text \<open>
  C7: revocation is subject-scoped and total. On a store with one entry per key, after
  \<open>revokeFamily s\<close> every record of subject \<open>s\<close> is the same record with \<open>valid\<close>
  cleared, a verified refresh token naming such a record fails rotation with
  \<open>refresh_reused_or_revoked\<close>, every record of another subject is unchanged, and the
  keys are the same.
\<close>

theorem revocation_subject_scoped:
  assumes "distinct (map fst st)"
  shows "(\<forall>k r. map_of st k = Some r \<and> sub r = s
            \<longrightarrow> map_of (revokeFamily s st) k = Some (r\<lparr>valid := False\<rparr>))
       \<and> (\<forall>t now g p r. jwt_verify t (JWT_REFRESH_SECRET env) (JWT_ISSUER env) (JWT_AUDIENCE env) now = Inr p
               \<and> type p = refresh \<and> map_of st (JwtPayload.jti p) = Some r \<and> sub r = s
            \<longrightarrow> rotateRefreshToken env now g t (revokeFamily s st)
                  = (Inl refresh_reused_or_revoked, revokeFamily s st))
       \<and> (\<forall>k r. map_of st k = Some r \<and> sub r \<noteq> s \<longrightarrow> map_of (revokeFamily s st) k = Some r)
       \<and> map fst (revokeFamily s st) = map fst st"
proof -
  have eq: "revokeFamily s st = map (revoke_entry s) st"
    using assms by (rule revokeFamily_map)
  have a: "map_of (revokeFamily s st) k = Some (r\<lparr>valid := False\<rparr>)"
    if "map_of st k = Some r" "sub r = s" for k r
    using that by (simp add: eq map_of_revoke)
  have b: "rotateRefreshToken env now g t (revokeFamily s st) = (Inl refresh_reused_or_revoked, revokeFamily s st)"
    if v: "jwt_verify t (JWT_REFRESH_SECRET env) (JWT_ISSUER env) (JWT_AUDIENCE env) now = Inr p"
      and ty: "type p = refresh" and r: "map_of st (JwtPayload.jti p) = Some r" "sub r = s"
    for t now g p r
  proof -
    have "map_of (revokeFamily s st) (JwtPayload.jti p) = None \<or>
          (\<exists>rec. map_of (revokeFamily s st) (JwtPayload.jti p) = Some rec \<and> \<not> valid rec)"
      using a[OF r] by simp
    from rotate_invalid_record[OF v ty this] show ?thesis .
  qed
  have c: "map_of (revokeFamily s st) k = Some r" if "map_of st k = Some r" "sub r \<noteq> s" for k r
    using that by (simp add: eq map_of_revoke)
  have d: "map fst (revokeFamily s st) = map fst st"
    unfolding eq by (rule keys_revoke)
  from a b c d show ?thesis by blast
qed

theorem revocation_subject_scoped_witness:
  "distinct (map fst demo_store2)
   \<and> map_option valid (map_of (revokeFamily ''app-1'' demo_store2) ''r1'') = Some False
   \<and> rotateRefreshToken demo_env 6000 (''a2'', ''r2'', ''f2'') demo_token (revokeFamily ''app-1'' demo_store2)
       = (Inl refresh_reused_or_revoked, revokeFamily ''app-1'' demo_store2)
   \<and> map_of (revokeFamily ''app-1'' demo_store2) ''s1'' = map_of demo_store2 ''s1''
   \<and> map_option valid (map_of (revokeFamily ''app-1'' demo_store2) ''s1'') = Some True"
proof -
  let ?r1 = "\<lparr>RefreshRecord.jti = ''r1'', sub = ''app-1'', family = ''f1'', valid = True, expiresAt = 604805000\<rparr>"
  let ?s1 = "\<lparr>RefreshRecord.jti = ''s1'', sub = ''app-2'', family = ''h1'', valid = True, expiresAt = 604805000\<rparr>"
  let ?p = "\<lparr>JwtPayload.sub = ''app-1'', iss = ''ds-api'', aud = ''ds-clients'', jti = ''r1'', type = refresh\<rparr>"
  have d: "distinct (map fst demo_store2)" by (simp add: demo_store2_eq)
  have a: "map_of demo_store2 ''r1'' = Some ?r1 \<and> sub ?r1 = ''app-1''" by (simp add: demo_store2_eq)
  have b: "jwt_verify demo_token (JWT_REFRESH_SECRET demo_env) (JWT_ISSUER demo_env) (JWT_AUDIENCE demo_env) 6000 = Inr ?p
           \<and> type ?p = refresh \<and> map_of demo_store2 (JwtPayload.jti ?p) = Some ?r1 \<and> sub ?r1 = ''app-1''"
    by (simp add: demo_verify demo_store2_eq)
  have c: "map_of demo_store2 ''s1'' = Some ?s1 \<and> sub ?s1 \<noteq> ''app-1''" by (simp add: demo_store2_eq)
  note inst = revocation_subject_scoped[OF d, of "''app-1''" demo_env]
  from inst a have 1: "map_of (revokeFamily ''app-1'' demo_store2) ''r1'' = Some (?r1\<lparr>valid := False\<rparr>)" by blast
  from inst b have 2: "rotateRefreshToken demo_env 6000 (''a2'', ''r2'', ''f2'') demo_token (revokeFamily ''app-1'' demo_store2)
       = (Inl refresh_reused_or_revoked, revokeFamily ''app-1'' demo_store2)" by blast
  from inst c have 3: "map_of (revokeFamily ''app-1'' demo_store2) ''s1'' = Some ?s1" by blast
  from d 1 2 3 c show ?thesis by simp
qed

text \<open>
  C8: \<open>revokeFamily\<close> is idempotent. On a store with one entry per key, revoking a
  subject twice gives the store that revoking it once gives, and revoking a subject that
  has no record leaves the store as it is.
\<close>

theorem revokeFamily_idempotent:
  assumes "distinct (map fst st)"
  shows "revokeFamily s (revokeFamily s st) = revokeFamily s st
       \<and> ((\<forall>e \<in> set st. sub (snd e) \<noteq> s) \<longrightarrow> revokeFamily s st = st)"
proof -
  have eq: "revokeFamily s st = map (revoke_entry s) st"
    using assms by (rule revokeFamily_map)
  have "distinct (map fst (map (revoke_entry s) st))"
    using assms by (simp only: keys_revoke)
  then have "revokeFamily s (map (revoke_entry s) st) = map (revoke_entry s) (map (revoke_entry s) st)"
    by (rule revokeFamily_map)
  then have "revokeFamily s (revokeFamily s st) = revokeFamily s st"
    by (simp add: eq revoke_entry_idem comp_def)
  moreover have "(\<forall>e \<in> set st. sub (snd e) \<noteq> s) \<longrightarrow> revokeFamily s st = st"
    by (simp add: revokeFamily_def loop_no_records)
  ultimately show ?thesis by simp
qed

theorem revokeFamily_idempotent_witness:
  "revokeFamily ''app-1'' (revokeFamily ''app-1'' demo_store2) = revokeFamily ''app-1'' demo_store2
   \<and> revokeFamily ''app-1'' demo_store2 \<noteq> demo_store2
   \<and> revokeFamily ''app-3'' demo_store2 = demo_store2"
proof -
  have d: "distinct (map fst demo_store2)" by (simp add: demo_store2_eq)
  have n: "\<forall>e \<in> set demo_store2. sub (snd e) \<noteq> ''app-3''" by (simp add: demo_store2_eq)
  have ch: "revokeFamily ''app-1'' demo_store2 \<noteq> demo_store2"
    by (simp add: demo_store2_eq revokeFamily_def)
  from revokeFamily_idempotent[OF d, of "''app-1''"] revokeFamily_idempotent[OF d, of "''app-3''"] n ch
  show ?thesis by blast
qed

text \<open>
  C9: rotation is atomic on a decode failure. When the presented token fails
  verification against the refresh secret, or verifies but is not of kind refresh,
  \<open>rotateRefreshToken\<close> fails with \<open>invalid_refresh\<close> and returns the store unchanged.
\<close>

theorem rotate_failure_leaves_store:
  assumes "(\<exists>e. jwt_verify t (JWT_REFRESH_SECRET env) (JWT_ISSUER env) (JWT_AUDIENCE env) now = Inl e) \<or>
           (\<exists>p. jwt_verify t (JWT_REFRESH_SECRET env) (JWT_ISSUER env) (JWT_AUDIENCE env) now = Inr p
                \<and> type p \<noteq> refresh)"
  shows "rotateRefreshToken env now g t st = (Inl invalid_refresh, st)"
  using assms by (rule rotate_bad_token)

theorem rotate_failure_leaves_store_witness:
  "rotateRefreshToken demo_env 6000 (''a2'', ''r2'', ''f2'') (NotJwt ''not-a-token'') demo_store
     = (Inl invalid_refresh, demo_store)
   \<and> rotateRefreshToken demo_env 6000 (''a2'', ''r2'', ''f2'') (accessToken (fst demo_login)) demo_store
     = (Inl invalid_refresh, demo_store)"
proof -
  have h1: "jwt_verify (NotJwt ''not-a-token'') (JWT_REFRESH_SECRET demo_env) (JWT_ISSUER demo_env)
              (JWT_AUDIENCE demo_env) 6000 = Inl JsonWebTokenError"
    by (simp add: jwt_verify_def)
  have h2: "jwt_verify (accessToken (fst demo_login)) (JWT_REFRESH_SECRET demo_env) (JWT_ISSUER demo_env)
              (JWT_AUDIENCE demo_env) 6000 = Inl JsonWebTokenError"
    by (simp add: demo_login_def issueTokens_eq jwt_verify_def demo_env_def)
  show ?thesis
    using rotate_failure_leaves_store[of "NotJwt ''not-a-token''" demo_env 6000 "(''a2'', ''r2'', ''f2'')" demo_store]
      rotate_failure_leaves_store[of "accessToken (fst demo_login)" demo_env 6000 "(''a2'', ''r2'', ''f2'')" demo_store]
      h1 h2 by simp
qed

text \<open>
  C10: a successful rotation keeps the number of valid records of the rotating subject.
  On a well-formed store, for a verified refresh token whose record is valid and carries
  the token's subject, and a fresh replacement id: the rotation succeeds, the count of
  valid records of the subject is unchanged, the presented token's record is the old one
  with \<open>valid\<close> cleared, one new valid record of the same subject is filed under the new
  id, every other key keeps its record, and the store has grown by one entry.
\<close>

theorem rotate_keeps_valid_count:
  assumes wf: "wf_store st"
    and v: "jwt_verify t (JWT_REFRESH_SECRET env) (JWT_ISSUER env) (JWT_AUDIENCE env) now = Inr p"
    and ty: "type p = refresh"
    and rec: "map_of st (JwtPayload.jti p) = Some rec" "valid rec"
    and same: "sub rec = JwtPayload.sub p"
    and fresh: "map_of st r = None"
  shows "(\<exists>pair. fst (rotateRefreshToken env now (a, r, f) t st) = Inr pair)
       \<and> valid_count (JwtPayload.sub p) (snd (rotateRefreshToken env now (a, r, f) t st))
           = valid_count (JwtPayload.sub p) st
       \<and> map_of (snd (rotateRefreshToken env now (a, r, f) t st)) (JwtPayload.jti p)
           = Some (rec\<lparr>valid := False\<rparr>)
       \<and> (\<exists>e. map_of (snd (rotateRefreshToken env now (a, r, f) t st)) r
              = Some \<lparr>RefreshRecord.jti = r, sub = JwtPayload.sub p, family = f, valid = True, expiresAt = e\<rparr>)
       \<and> (\<forall>k. k \<noteq> JwtPayload.jti p \<and> k \<noteq> r
             \<longrightarrow> map_of (snd (rotateRefreshToken env now (a, r, f) t st)) k = map_of st k)
       \<and> length (snd (rotateRefreshToken env now (a, r, f) t st)) = length st + 1"
proof -
  let ?k = "JwtPayload.jti p"
  let ?s = "JwtPayload.sub p"
  let ?old = "rec\<lparr>valid := False\<rparr>"
  let ?e = "if now div 1000 + REFRESH_TOKEN_TTL env \<noteq> 0
            then (now div 1000 + REFRESH_TOKEN_TTL env) * 1000 else now + 604800000"
  let ?new = "\<lparr>RefreshRecord.jti = r, sub = ?s, family = f, valid = True, expiresAt = ?e\<rparr>"
  let ?st1 = "AList.update ?k ?old st"
  have j: "RefreshRecord.jti rec = ?k" using wf rec(1) by (rule wf_lookup)
  have ne: "r \<noteq> ?k" using fresh rec(1) by auto
  have fresh1: "map_of ?st1 r = None" using fresh ne by (simp add: update_conv')
  have res: "rotateRefreshToken env now (a, r, f) t st =
               (Inr (fst (issueTokens env now (a, r, f) ?s ?st1)), ?st1 @ [(r, ?new)])"
    unfolding rotate_ok[OF v ty rec]
    by (simp add: j issueTokens_eq update_absent[OF fresh1])
  have c1: "valid_count ?s ?st1 + 1 = valid_count ?s st"
    using count_update[OF rec(1), of "\<lambda>(k, x). sub x = ?s \<and> valid x" ?old] rec(2) same
    by (simp add: valid_count_def)
  have cnt: "valid_count ?s (?st1 @ [(r, ?new)]) = valid_count ?s st"
    using c1 by (simp add: valid_count_def)
  have old: "map_of (?st1 @ [(r, ?new)]) ?k = Some ?old"
    by (simp add: update_conv' map_add_def)
  have new: "map_of (?st1 @ [(r, ?new)]) r = Some ?new"
    using fresh1 by (simp add: map_add_def)
  have frame: "map_of (?st1 @ [(r, ?new)]) k = map_of st k" if "k \<noteq> ?k" "k \<noteq> r" for k
    using that by (simp add: update_conv' map_add_def split: option.splits)
  have len: "length (?st1 @ [(r, ?new)]) = length st + 1"
    by (simp add: length_update_present[OF rec(1)])
  show ?thesis unfolding res fst_conv snd_conv
    using cnt old new frame len by blast
qed

theorem rotate_keeps_valid_count_witness:
  "wf_store demo_store2
   \<and> valid_count ''app-1'' demo_store2 = 1
   \<and> valid_count ''app-1'' (snd (rotateRefreshToken demo_env 6000 (''a2'', ''r2'', ''f2'') demo_token demo_store2)) = 1
   \<and> map_option valid (map_of (snd (rotateRefreshToken demo_env 6000 (''a2'', ''r2'', ''f2'') demo_token demo_store2)) ''r1'')
       = Some False
   \<and> map_of (snd (rotateRefreshToken demo_env 6000 (''a2'', ''r2'', ''f2'') demo_token demo_store2)) ''s1''
       = map_of demo_store2 ''s1''
   \<and> length (snd (rotateRefreshToken demo_env 6000 (''a2'', ''r2'', ''f2'') demo_token demo_store2)) = 3"
proof -
  let ?r1 = "\<lparr>RefreshRecord.jti = ''r1'', sub = ''app-1'', family = ''f1'', valid = True, expiresAt = 604805000\<rparr>"
  let ?p = "\<lparr>JwtPayload.sub = ''app-1'', iss = ''ds-api'', aud = ''ds-clients'', jti = ''r1'', type = refresh\<rparr>"
  have wf: "wf_store demo_store2" by (simp add: demo_store2_eq wf_store_def)
  have v: "jwt_verify demo_token (JWT_REFRESH_SECRET demo_env) (JWT_ISSUER demo_env) (JWT_AUDIENCE demo_env) 6000 = Inr ?p"
    by (rule demo_verify)
  have ty: "type ?p = refresh" by simp
  have rec: "map_of demo_store2 (JwtPayload.jti ?p) = Some ?r1" by (simp add: demo_store2_eq)
  have va: "valid ?r1" by simp
  have same: "sub ?r1 = JwtPayload.sub ?p" by simp
  have fresh: "map_of demo_store2 ''r2'' = None" by (simp add: demo_store2_eq)
  have cnt: "valid_count ''app-1'' demo_store2 = 1" by (simp add: demo_store2_eq valid_count_def)
  have len: "length demo_store2 = 2" by (simp add: demo_store2_eq)
  have k: "''s1'' \<noteq> JwtPayload.jti ?p \<and> ''s1'' \<noteq> ''r2''" by simp
  from rotate_keeps_valid_count[OF wf v ty rec va same fresh, of "''a2''" "''f2''"] wf cnt len k
  show ?thesis by simp
qed

end